theory Spec2Isabelle
  imports Main
begin

section \<open>Python values used by agno\_agent.py\<close>

text \<open>
  A Python \<open>str\<close> is a sequence of Unicode code points, and \<open>text[:6000]\<close> counts code
  points, so a string is a list of code points here. HOL's \<open>string\<close> counts bytes and is
  only used to write the ASCII parts of literals; the accented letters of the source's
  literals are written as their code points.
\<close>

type_synonym pystr = "nat list"
type_synonym bytes = "nat list"

definition str :: "string \<Rightarrow> pystr" where
  "str s = map of_char s"

text \<open>\<open>str.isspace\<close> on one code point: the white space that \<open>str.strip()\<close> removes.\<close>

definition py_isspace :: "nat \<Rightarrow> bool" where
  "py_isspace c =
     ((9 \<le> c \<and> c \<le> 13) \<or> (28 \<le> c \<and> c \<le> 32) \<or> c = 133 \<or> c = 160 \<or> c = 5760 \<or>
      (8192 \<le> c \<and> c \<le> 8202) \<or> c = 8232 \<or> c = 8233 \<or> c = 8239 \<or> c = 8287 \<or> c = 12288)"

definition strip :: "pystr \<Rightarrow> pystr" where
  "strip s = rev (dropWhile py_isspace (rev (dropWhile py_isspace s)))"

definition startswith :: "pystr \<Rightarrow> pystr \<Rightarrow> bool" where
  "startswith s p = (take (length p) s = p)"

text \<open>
  The truth value of an optional string: \<open>None\<close> and the empty string are false. This is
  what \<open>not OPENAI_API_KEY\<close>, \<open>not API_KEY\<close> and \<open>x or ""\<close> test.
\<close>

definition truthy :: "pystr option \<Rightarrow> bool" where
  "truthy v = (case v of None \<Rightarrow> False | Some t \<Rightarrow> t \<noteq> [])"

text \<open>
  A raised exception: whether it is an instance of \<open>Exception\<close> (what
  \<open>except Exception\<close> tests; \<open>KeyboardInterrupt\<close>, \<open>SystemExit\<close> and
  \<open>asyncio.CancelledError\<close> are not) and the text \<open>str(e)\<close> gives.
\<close>

datatype py_exc = PyExc (is_Exception: bool) (exc_str: pystr)

datatype json = JNull | JString pystr | JObject "(pystr \<times> json) list"

text \<open>
  Whether \<open>s.encode("utf-8")\<close> returns: a string that holds a surrogate code point
  (\<open>U+D800\<close> to \<open>U+DFFF\<close>) cannot be encoded, and \<open>encode\<close> raises
  \<open>UnicodeEncodeError\<close>. A JSON value can be sent when all its strings can be encoded.
\<close>

definition utf8_encodable :: "pystr \<Rightarrow> bool" where
  "utf8_encodable t = list_all (\<lambda>c. c < 55296 \<or> 57343 < c) t"

fun json_encodable :: "json \<Rightarrow> bool" where
  "json_encodable JNull = True"
| "json_encodable (JString t) = utf8_encodable t"
| "json_encodable (JObject kvs) = list_all (\<lambda>(k, v). utf8_encodable k \<and> json_encodable v) kvs"

record response =
  status_code :: nat
  content :: json

section \<open>Configuration read at import time\<close>

record config =
  OPENAI_API_KEY :: "pystr option"
  API_KEY :: "pystr option"

text \<open>\<open>os.getenv\<close>, with a log of the names read.\<close>

definition getenv :: "(pystr \<Rightarrow> pystr option) \<Rightarrow> pystr \<Rightarrow> pystr list \<Rightarrow> pystr option \<times> pystr list" where
  "getenv environ name log = (environ name, log @ [name])"

definition RuntimeError :: py_exc where
  "RuntimeError =
     PyExc True ([10060] @ str '' Vari'' @ [225] @ str ''vel de ambiente OPENAI_API_KEY n'' @ [227]
                 @ str ''o configurada.'')"

text \<open>
  The module body up to the construction of the client: both variables are read, then a
  false \<open>OPENAI_API_KEY\<close> raises. The result is the raised exception or the two module
  globals, with the log of environment reads.
\<close>

definition startup :: "(pystr \<Rightarrow> pystr option) \<Rightarrow> (py_exc + config) \<times> pystr list" where
  "startup environ =
     (let (k, log1) = getenv environ (str ''OPENAI_API_KEY'') [];
          (a, log2) = getenv environ (str ''API_KEY'') log1
      in if \<not> truthy k then (Inl RuntimeError, log2)
         else (Inr \<lparr>OPENAI_API_KEY = k, API_KEY = a\<rparr>, log2))"

section \<open>Requests, the outside world and the effects of a request\<close>

text \<open>
  A request as the code reads it: \<open>request.url.path\<close>, \<open>request.headers.get\<close>, the
  method the router dispatches on, and the uploaded file, given by what
  \<open>await file.read()\<close> does (\<open>None\<close>: the form has no file field).
\<close>

record request =
  req_method :: pystr
  url_path :: pystr
  headers_get :: "pystr \<Rightarrow> pystr option"
  req_file :: "(py_exc + bytes) option"

text \<open>What \<open>page.extract_text()\<close> does on one page: it raises, or returns \<open>None\<close> or a string.\<close>

type_synonym page = "py_exc + pystr option"

record message =
  role :: pystr
  msg_content :: pystr

record chat_request =
  model :: pystr
  temperature :: int
  messages :: "message list"

text \<open>
  The collaborators the code calls and does not define: the name \<open>tempfile\<close> picks, pypdf
  on the bytes of a file (it raises, or gives the pages in document order), the completion
  service (it raises, or gives the \<open>message.content\<close> of each choice), and of the web
  framework: its own answer to a request no endpoint takes, the text of the
  \<open>UnicodeEncodeError\<close> its JSON rendering raises on a value it cannot encode, and what
  the \<open>call_next\<close> of an \<open>@app.middleware("http")\<close> function raises when the layers below
  it let out an exception that is not an instance of \<open>Exception\<close> (for an
  \<open>asyncio.CancelledError\<close>: \<open>RuntimeError("No response returned.")\<close>).
\<close>

record world =
  tmp_name :: pystr
  pdf_parse :: "bytes \<Rightarrow> py_exc + page list"
  chat_completions_create :: "chat_request \<Rightarrow> py_exc + pystr option list"
  framework_response :: "request \<Rightarrow> response"
  encode_error_text :: "json \<Rightarrow> pystr"
  call_next_raises :: "py_exc \<Rightarrow> py_exc"

text \<open>
  The effects a request leaves: the files on disk, the open file handles, and the calls
  made to the text extraction and to the completion service, in order.
\<close>

datatype event = ExtractText bytes | ChatCreate chat_request

record state =
  files :: "pystr \<Rightarrow> bytes option"
  open_files :: "pystr list"
  trace :: "event list"

section \<open>The temporary file\<close>

record tmpfile =
  tmp_path :: pystr
  tmp_buffer :: bytes
  tmp_delete :: bool

text \<open>
  \<open>tempfile.NamedTemporaryFile(delete=...)\<close> entered by \<open>with\<close>: a new empty file, open.
  \<open>write\<close> fills the buffer, \<open>flush\<close> moves it to the file. Leaving the \<open>with\<close> block
  flushes and closes the handle, and removes the file only when \<open>delete\<close> is true.
\<close>

definition NamedTemporaryFile :: "bool \<Rightarrow> world \<Rightarrow> state \<Rightarrow> tmpfile \<times> state" where
  "NamedTemporaryFile delete w s =
     (\<lparr>tmp_path = tmp_name w, tmp_buffer = [], tmp_delete = delete\<rparr>,
      s\<lparr>files := (files s)(tmp_name w \<mapsto> []), open_files := tmp_name w # open_files s\<rparr>)"

definition tmp_write :: "tmpfile \<Rightarrow> bytes \<Rightarrow> tmpfile" where
  "tmp_write tmp b = tmp\<lparr>tmp_buffer := tmp_buffer tmp @ b\<rparr>"

definition tmp_flush :: "tmpfile \<Rightarrow> state \<Rightarrow> tmpfile \<times> state" where
  "tmp_flush tmp s =
     (tmp\<lparr>tmp_buffer := []\<rparr>,
      s\<lparr>files := (files s)(tmp_path tmp \<mapsto>
            (case files s (tmp_path tmp) of None \<Rightarrow> [] | Some old \<Rightarrow> old) @ tmp_buffer tmp)\<rparr>)"

definition tmp_exit :: "tmpfile \<Rightarrow> state \<Rightarrow> state" where
  "tmp_exit tmp s =
     (let (tmp1, s1) = tmp_flush tmp s;
          s2 = s1\<lparr>open_files := remove1 (tmp_path tmp1) (open_files s1)\<rparr>
      in if tmp_delete tmp1 then s2\<lparr>files := (files s2)(tmp_path tmp1 := None)\<rparr> else s2)"

text \<open>\<open>PdfReader(tmp.name)\<close>: pypdf on what the named file holds on disk.\<close>

definition PdfReader :: "world \<Rightarrow> pystr \<Rightarrow> state \<Rightarrow> py_exc + page list" where
  "PdfReader w name s =
     (case files s name of
        None \<Rightarrow> Inl (PyExc True (str ''No such file or directory''))
      | Some data \<Rightarrow> pdf_parse w data)"

section \<open>extract\_text\_from\_pdf\<close>

text \<open>\<open>x or ""\<close>.\<close>

definition or_empty :: "pystr option \<Rightarrow> pystr" where
  "or_empty x = (if truthy x then (case x of None \<Rightarrow> [] | Some t \<Rightarrow> t) else [])"

text \<open>The loop \<open>for page in reader.pages: text += page.extract_text() or ""\<close>.\<close>

fun extract_pages :: "page list \<Rightarrow> pystr \<Rightarrow> py_exc + pystr" where
  "extract_pages [] text = Inr text"
| "extract_pages (p # ps) text =
     (case p of
        Inl e \<Rightarrow> Inl e
      | Inr x \<Rightarrow> extract_pages ps (text @ or_empty x))"

text \<open>
  The call is logged first. The \<open>with\<close> block's exit runs on both ways out of the block;
  \<open>strip\<close> runs after it, on the normal way only.
\<close>

definition extract_text_from_pdf :: "world \<Rightarrow> bytes \<Rightarrow> state \<Rightarrow> (py_exc + pystr) \<times> state" where
  "extract_text_from_pdf w file_bytes s0 =
     (let s = s0\<lparr>trace := trace s0 @ [ExtractText file_bytes]\<rparr>;
          (tmp, s1) = NamedTemporaryFile False w s;
          tmp1 = tmp_write tmp file_bytes;
          (tmp2, s2) = tmp_flush tmp1 s1;
          r = (case PdfReader w (tmp_path tmp2) s2 of
                 Inl e \<Rightarrow> Inl e
               | Inr pages \<Rightarrow> extract_pages pages []);
          s3 = tmp_exit tmp2 s2
      in (case r of Inl e \<Rightarrow> (Inl e, s3) | Inr text \<Rightarrow> (Inr (strip text), s3)))"

section \<open>The prompt and the request to the completion service\<close>

text \<open>
  The f-string of \<open>predict\<close>: the text before the substitution \<open>{text[:6000]}\<close> and the
  text after it. The comment that follows the substitution is inside the string literal,
  so it is part of the prompt.
\<close>

definition prompt_head :: pystr where
  \<open>prompt_head =
     [10]
      @ str ''        Extraia do texto abaixo os principais campos de uma nota de negocia'' @ [231, 227] @ str ''o B3 (XP):'' @ [10]
      @ str ''        - Data do preg'' @ [227] @ str ''o'' @ [10]
      @ str ''        - N'' @ [250] @ str ''mero da nota'' @ [10]
      @ str ''        - Valor dos neg'' @ [243] @ str ''cios'' @ [10]
      @ str ''        - Total de custos operacionais'' @ [10]
      @ str ''        - IRRF (proje'' @ [231, 227] @ str ''o)'' @ [10]
      @ str ''        - Total l'' @ [237] @ str ''quido da nota'' @ [10]
      @ str ''        Retorne em JSON estruturado com os nomes das chaves exatamente assim:'' @ [10]
      @ str ''        { "data_pregao": "", "nota_numero": "", "valor_negocios": "", '' @ [10]
      @ str ''           "total_custos": "", "irrf_proj": "", "total_liquido_nota": "" }'' @ [10]
      @ str ''        Texto extra'' @ [237] @ str ''do:'' @ [10]
      @ str ''        ''\<close>

definition prompt_tail :: pystr where
  "prompt_tail =
     str ''  # limita para evitar estouro de tokens'' @ [10]
      @ str ''        ''"

definition prompt :: "pystr \<Rightarrow> pystr" where
  "prompt text = prompt_head @ take 6000 text @ prompt_tail"

definition system_content :: pystr where
  "system_content =
     str ''Voc'' @ [234] @ str '' '' @ [233] @ str '' um extrator preciso de informa'' @ [231, 245]
      @ str ''es de PDFs da XP/B3.''"

text \<open>The keyword arguments of \<open>client.chat.completions.create\<close>.\<close>

definition create_args :: "pystr \<Rightarrow> chat_request" where
  "create_args text =
     \<lparr>model = str ''gpt-4o-mini'',
      temperature = 0,
      messages = [\<lparr>role = str ''system'', msg_content = system_content\<rparr>,
                  \<lparr>role = str ''user'', msg_content = prompt text\<rparr>]\<rparr>"

section \<open>The endpoints\<close>

definition no_text_found :: json where
  "no_text_found = JObject [(str ''error'', JString (str ''Nenhum texto encontrado no PDF.''))]"

definition IndexError :: py_exc where
  "IndexError = PyExc True (str ''list index out of range'')"

text \<open>
  The body of the \<open>try\<close> block of \<open>predict\<close>. \<open>Inl\<close> is an exception on its way out of
  the block. The call to the completion service is logged when it is made, whatever it
  does. \<open>choices[0]\<close> on no choices raises; a \<open>message.content\<close> of \<open>None\<close> is returned
  as it is.
\<close>

definition predict_try :: "world \<Rightarrow> py_exc + bytes \<Rightarrow> state \<Rightarrow> (py_exc + json) \<times> state" where
  "predict_try w file s =
     (case file of
        Inl e \<Rightarrow> (Inl e, s)
      | Inr file_bytes \<Rightarrow>
          (case extract_text_from_pdf w file_bytes s of
             (Inl e, s1) \<Rightarrow> (Inl e, s1)
           | (Inr text, s1) \<Rightarrow>
               if text = [] then (Inr no_text_found, s1)
               else
                 (let s2 = s1\<lparr>trace := trace s1 @ [ChatCreate (create_args text)]\<rparr>
                  in case chat_completions_create w (create_args text) of
                       Inl e \<Rightarrow> (Inl e, s2)
                     | Inr [] \<Rightarrow> (Inl IndexError, s2)
                     | Inr (resposta # _) \<Rightarrow>
                         (Inr (JObject [(str ''resultado'',
                                 (case resposta of None \<Rightarrow> JNull | Some t \<Rightarrow> JString t))]), s2))))"

text \<open>\<open>except Exception as e: return {"error": str(e)}\<close>.\<close>

definition predict :: "world \<Rightarrow> py_exc + bytes \<Rightarrow> state \<Rightarrow> (py_exc + json) \<times> state" where
  "predict w file s =
     (case predict_try w file s of
        (Inl e, s1) \<Rightarrow>
          if is_Exception e then (Inr (JObject [(str ''error'', JString (exc_str e))]), s1)
          else (Inl e, s1)
      | (Inr d, s1) \<Rightarrow> (Inr d, s1))"

definition root :: json where
  "root = JObject [(str ''status'', JString (str ''XP B3 Parser ativo'')),
                   (str ''docs'', JString (str ''/docs''))]"

section \<open>Routing and the API key guard\<close>

text \<open>
  A dict an endpoint returns is made into a \<open>JSONResponse\<close> with status 200 by the
  framework, after the endpoint has returned: its rendering is
  \<open>json.dumps(content, ensure_ascii=False).encode("utf-8")\<close>, which raises
  \<open>UnicodeEncodeError\<close> (an \<open>Exception\<close>) on a string that cannot be encoded.
\<close>

definition UnicodeEncodeError :: "pystr \<Rightarrow> py_exc" where
  "UnicodeEncodeError msg = PyExc True msg"

definition render_json :: "world \<Rightarrow> json \<Rightarrow> py_exc + response" where
  "render_json w d =
     (if json_encodable d then Inr \<lparr>status_code = 200, content = d\<rparr>
      else Inl (UnicodeEncodeError (encode_error_text w d)))"

text \<open>
  The router: the two registered routes. An exception that leaves an endpoint or the
  rendering of its result leaves the router. Every other request is answered by the
  framework.
\<close>

definition route :: "world \<Rightarrow> request \<Rightarrow> state \<Rightarrow> (py_exc + response) \<times> state" where
  "route w r s =
     (if req_method r = str ''POST'' \<and> url_path r = str ''/predict'' then
        (case req_file r of
           None \<Rightarrow> (Inr (framework_response w r), s)
         | Some file \<Rightarrow>
             (case predict w file s of
                (Inl e, s1) \<Rightarrow> (Inl e, s1)
              | (Inr d, s1) \<Rightarrow> (render_json w d, s1)))
      else if req_method r = str ''GET'' \<and> url_path r = str ''/'' then
        (render_json w root, s)
      else (Inr (framework_response w r), s))"

definition unauthorized :: response where
  "unauthorized =
     \<lparr>status_code = 401, content = JObject [(str ''detail'', JString (str ''Unauthorized''))]\<rparr>"

definition api_key_guard ::
  "config \<Rightarrow> (request \<Rightarrow> state \<Rightarrow> (py_exc + response) \<times> state) \<Rightarrow> request \<Rightarrow> state
     \<Rightarrow> (py_exc + response) \<times> state" where
  "api_key_guard cfg call_next r s =
     (if startswith (url_path r) (str ''/predict'') then
        (let key = headers_get r (str ''X-API-Key'')
         in if \<not> truthy (API_KEY cfg) \<or> key \<noteq> API_KEY cfg then (Inr unauthorized, s)
            else call_next r s)
      else call_next r s)"

text \<open>
  The \<open>call_next\<close> the framework hands to the guard. It runs the layers below the guard,
  which end in the router, and gives their response. An \<open>Exception\<close> they raise is
  raised again by \<open>call_next\<close>; any other exception is not captured by it, no response
  arrives, and \<open>call_next\<close> raises what the framework makes of that.
\<close>

definition base_http_call_next :: "world \<Rightarrow> request \<Rightarrow> state \<Rightarrow> (py_exc + response) \<times> state" where
  "base_http_call_next w r s =
     (case route w r s of
        (Inl e, s1) \<Rightarrow> if is_Exception e then (Inl e, s1) else (Inl (call_next_raises w e), s1)
      | (Inr resp, s1) \<Rightarrow> (Inr resp, s1))"

text \<open>
  The application: the guard is the outermost of the layers this module adds, and it
  forwards through \<open>call_next\<close>. \<open>Inl\<close> is an exception that leaves the guard: the server
  answers such a request with status 500.
\<close>

definition app :: "config \<Rightarrow> world \<Rightarrow> request \<Rightarrow> state \<Rightarrow> (py_exc + response) \<times> state" where
  "app cfg w = api_key_guard cfg (base_http_call_next w)"

section \<open>Example inputs\<close>

text \<open>
  A world whose PDF reader and completion service give fixed answers, and the state of a
  machine with no files, no open handles and no calls made.
\<close>

definition example_world :: "(py_exc + page list) \<Rightarrow> (py_exc + pystr option list) \<Rightarrow> world" where
  "example_world parsed answer =
     \<lparr>tmp_name = str ''/tmp/tmpk3v9'',
      pdf_parse = (\<lambda>_. parsed),
      chat_completions_create = (\<lambda>_. answer),
      framework_response =
        (\<lambda>_. \<lparr>status_code = 404, content = JObject [(str ''detail'', JString (str ''Not Found''))]\<rparr>),
      encode_error_text = (\<lambda>_. str ''surrogates not allowed''),
      call_next_raises = (\<lambda>_. PyExc True (str ''No response returned.''))\<rparr>"

definition empty_state :: state where
  "empty_state = \<lparr>files = (\<lambda>_. None), open_files = [], trace = []\<rparr>"

text \<open>
  A request given by its method, path, \<open>X-API-Key\<close> header and upload, and a
  configuration given by its shared secret.
\<close>

definition example_request :: "pystr \<Rightarrow> pystr \<Rightarrow> pystr option \<Rightarrow> (py_exc + bytes) option \<Rightarrow> request" where
  "example_request m p key file =
     \<lparr>req_method = m, url_path = p,
      headers_get = (\<lambda>name. if name = str ''X-API-Key'' then key else None),
      req_file = file\<rparr>"

definition example_config :: "pystr option \<Rightarrow> config" where
  "example_config secret = \<lparr>OPENAI_API_KEY = Some (str ''sk-test''), API_KEY = secret\<rparr>"

section \<open>Text extraction\<close>

lemma extract_pages_returned:
  "extract_pages (map Inr xs) acc =
     Inr (acc @ concat (map (\<lambda>x. case x of None \<Rightarrow> [] | Some t \<Rightarrow> t) xs))"
  by (induction xs arbitrary: acc) (auto simp: or_empty_def truthy_def split: option.splits)

text \<open>
  The temporary file only carries the bytes to the reader: the result depends on the
  reader and the pages alone, and the state gains the logged call and the file.
\<close>

lemma extract_text_from_pdf_unfold:
  "extract_text_from_pdf w b s =
     ((case pdf_parse w b of
         Inl e \<Rightarrow> Inl e
       | Inr pages \<Rightarrow>
           (case extract_pages pages [] of Inl e \<Rightarrow> Inl e | Inr text \<Rightarrow> Inr (strip text))),
      s\<lparr>files := (files s)(tmp_name w \<mapsto> b), trace := trace s @ [ExtractText b]\<rparr>)"
  by (simp add: extract_text_from_pdf_def NamedTemporaryFile_def tmp_write_def tmp_flush_def
      tmp_exit_def PdfReader_def Let_def split: sum.splits)

text \<open>
  C3, as the code has it: whatever the reader does (it returns or raises), when
  \<open>extract_text_from_pdf\<close> is left the handle of the temporary file is closed (the open
  handles are those from before the call), and the file itself is still on disk and
  holds the uploaded bytes: it was created with \<open>delete=False\<close> and nothing removes it.
\<close>

theorem tmp_closed_not_deleted:
  "open_files (snd (extract_text_from_pdf w file_bytes s)) = open_files s \<and>
   files (snd (extract_text_from_pdf w file_bytes s)) = (files s)(tmp_name w \<mapsto> file_bytes)"
  by (simp add: extract_text_from_pdf_unfold)

text \<open>
  C3 as stated fails: on a machine with no files, after a successful extraction and
  after one where the reader raises, the temporary file exists and holds the upload.
\<close>

theorem tmp_left_behind:
  "files empty_state (str ''/tmp/tmpk3v9'') = None \<and>
   fst (extract_text_from_pdf (example_world (Inr [Inr (Some (str ''nota''))]) (Inr []))
         [37, 80, 68, 70] empty_state) = Inr (str ''nota'') \<and>
   files (snd (extract_text_from_pdf (example_world (Inr [Inr (Some (str ''nota''))]) (Inr []))
                [37, 80, 68, 70] empty_state))
     (str ''/tmp/tmpk3v9'') = Some [37, 80, 68, 70] \<and>
   fst (extract_text_from_pdf (example_world (Inl (PyExc True (str ''EOF marker not found''))) (Inr []))
         [1, 2, 3] empty_state) = Inl (PyExc True (str ''EOF marker not found'')) \<and>
   files (snd (extract_text_from_pdf
                (example_world (Inl (PyExc True (str ''EOF marker not found''))) (Inr []))
                [1, 2, 3] empty_state))
     (str ''/tmp/tmpk3v9'') = Some [1, 2, 3]"
  by (simp add: extract_text_from_pdf_def NamedTemporaryFile_def tmp_write_def tmp_flush_def
      tmp_exit_def PdfReader_def Let_def example_world_def empty_state_def or_empty_def truthy_def
      strip_def py_isspace_def str_def)

text \<open>
  C8: when the reader accepts the bytes and every page's \<open>extract_text\<close> returns (\<open>xs\<close>
  are the values returned, in document order), the result is the concatenation in that
  order of the pages' texts, a page that gave \<open>None\<close> or the empty string adding nothing,
  with the white space at both ends of the whole removed.
\<close>

theorem extract_text_concat:
  assumes "pdf_parse w file_bytes = Inr (map Inr xs)"
  shows "fst (extract_text_from_pdf w file_bytes s) =
           Inr (strip (concat (map (\<lambda>x. case x of None \<Rightarrow> [] | Some t \<Rightarrow> t) xs)))"
  using assms by (simp add: extract_text_from_pdf_unfold extract_pages_returned)

text \<open>
  Four pages, two of them without text, give the trimmed concatenation; pages with
  nothing but white space give the empty string.
\<close>

theorem extract_text_concat_witness:
  "pdf_parse (example_world (Inr (map Inr [Some (str '' ab''), None, Some [], Some (str ''c d'' @ [10])])) (Inr []))
      [37, 80, 68, 70] = Inr (map Inr [Some (str '' ab''), None, Some [], Some (str ''c d'' @ [10])]) \<and>
   fst (extract_text_from_pdf
         (example_world (Inr (map Inr [Some (str '' ab''), None, Some [], Some (str ''c d'' @ [10])])) (Inr []))
         [37, 80, 68, 70] empty_state) = Inr (str ''abc d'') \<and>
   pdf_parse (example_world (Inr (map Inr [None, Some (str ''  '')])) (Inr [])) [37, 80, 68, 70]
      = Inr (map Inr [None, Some (str ''  '')]) \<and>
   fst (extract_text_from_pdf (example_world (Inr (map Inr [None, Some (str ''  '')])) (Inr []))
         [37, 80, 68, 70] empty_state) = Inr []"
proof -
  let ?xs = "[Some (str '' ab''), None, Some [], Some (str ''c d'' @ [10])]"
  let ?ys = "[None, Some (str ''  '')]"
  have h1: "pdf_parse (example_world (Inr (map Inr ?xs)) (Inr [])) [37, 80, 68, 70] = Inr (map Inr ?xs)"
    by (simp add: example_world_def)
  have h2: "pdf_parse (example_world (Inr (map Inr ?ys)) (Inr [])) [37, 80, 68, 70] = Inr (map Inr ?ys)"
    by (simp add: example_world_def)
  show ?thesis
    using h1 h2 extract_text_concat [OF h1, of empty_state] extract_text_concat [OF h2, of empty_state]
    by (simp add: strip_def py_isspace_def str_def)
qed

section \<open>The API key guard and the configuration\<close>

text \<open>
  C1, as the code has it: on a path that starts with \<open>/predict\<close>, when the secret is
  unset or the empty string, or the header is missing, or the header differs from the
  secret, the answer is 401 with the body \<open>{"detail": "Unauthorized"}\<close> and the state is
  the one before the request: no file is written, and neither the text extraction nor the
  completion service is called. When the secret is a non-empty string and the header
  equals it, the answer is that of \<open>call_next\<close> on the same request.
\<close>

theorem guard_rejects_or_forwards:
  assumes "startswith (url_path r) (str ''/predict'')"
  shows "(API_KEY cfg = None \<or> API_KEY cfg = Some [] \<or> headers_get r (str ''X-API-Key'') = None \<or>
          headers_get r (str ''X-API-Key'') \<noteq> API_KEY cfg \<longrightarrow>
            api_key_guard cfg call_next r s = (Inr unauthorized, s) \<and>
            app cfg w r s =
              (Inr \<lparr>status_code = 401,
                    content = JObject [(str ''detail'', JString (str ''Unauthorized''))]\<rparr>, s)) \<and>
         (headers_get r (str ''X-API-Key'') = API_KEY cfg \<and> API_KEY cfg \<noteq> None \<and> API_KEY cfg \<noteq> Some [] \<longrightarrow>
            api_key_guard cfg call_next r s = call_next r s \<and>
            app cfg w r s = base_http_call_next w r s)"
  using assms
  by (auto simp: api_key_guard_def app_def truthy_def unauthorized_def split: option.splits)

text \<open>A wrong key, no secret and no key, and the right key.\<close>

theorem guard_rejects_or_forwards_witness:
  "startswith (url_path (example_request (str ''POST'') (str ''/predict'') (Some (str ''wrong'')) (Some (Inr [37, 80]))))
     (str ''/predict'') \<and>
   app (example_config (Some (str ''s3cret''))) (example_world (Inr []) (Inr []))
     (example_request (str ''POST'') (str ''/predict'') (Some (str ''wrong'')) (Some (Inr [37, 80]))) empty_state
     = (Inr \<lparr>status_code = 401, content = JObject [(str ''detail'', JString (str ''Unauthorized''))]\<rparr>, empty_state) \<and>
   app (example_config None) (example_world (Inr []) (Inr []))
     (example_request (str ''POST'') (str ''/predict'') None (Some (Inr [37, 80]))) empty_state
     = (Inr \<lparr>status_code = 401, content = JObject [(str ''detail'', JString (str ''Unauthorized''))]\<rparr>, empty_state) \<and>
   app (example_config (Some (str ''s3cret''))) (example_world (Inr []) (Inr []))
     (example_request (str ''POST'') (str ''/predict'') (Some (str ''s3cret'')) (Some (Inr [37, 80]))) empty_state
     = base_http_call_next (example_world (Inr []) (Inr []))
        (example_request (str ''POST'') (str ''/predict'') (Some (str ''s3cret'')) (Some (Inr [37, 80]))) empty_state"
proof -
  let ?w = "example_world (Inr []) (Inr [])"
  let ?r = "\<lambda>k. example_request (str ''POST'') (str ''/predict'') k (Some (Inr [37, 80]))"
  have p: "\<And>k. startswith (url_path (?r k)) (str ''/predict'')"
    by (simp add: example_request_def startswith_def)
  show ?thesis
    using p [of "Some (str ''wrong'')"]
      guard_rejects_or_forwards [OF p [of "Some (str ''wrong'')"], where cfg = "example_config (Some (str ''s3cret''))"
        and call_next = "base_http_call_next ?w" and s = empty_state and w = ?w]
      guard_rejects_or_forwards [OF p [of None], where cfg = "example_config None"
        and call_next = "base_http_call_next ?w" and s = empty_state and w = ?w]
      guard_rejects_or_forwards [OF p [of "Some (str ''s3cret'')"], where cfg = "example_config (Some (str ''s3cret''))"
        and call_next = "base_http_call_next ?w" and s = empty_state and w = ?w]
    by (simp add: example_request_def example_config_def str_def)
qed

text \<open>
  C1 as stated fails where \<open>API_KEY\<close> is set to the empty string and the header is sent
  empty: the header equals the configured secret, and the request is answered 401
  instead of being forwarded (\<open>call_next\<close> would have answered otherwise).
\<close>

theorem empty_secret_rejects_equal_header:
  "API_KEY (example_config (Some [])) \<noteq> None \<and>
   headers_get (example_request (str ''POST'') (str ''/predict'') (Some []) (Some (Inr [37, 80]))) (str ''X-API-Key'')
     = API_KEY (example_config (Some [])) \<and>
   app (example_config (Some [])) (example_world (Inr []) (Inr []))
     (example_request (str ''POST'') (str ''/predict'') (Some []) (Some (Inr [37, 80]))) empty_state
     = (Inr unauthorized, empty_state) \<and>
   base_http_call_next (example_world (Inr []) (Inr []))
     (example_request (str ''POST'') (str ''/predict'') (Some []) (Some (Inr [37, 80]))) empty_state
     \<noteq> (Inr unauthorized, empty_state)"
  by (simp add: app_def api_key_guard_def base_http_call_next_def route_def render_json_def
      utf8_encodable_def predict_def predict_try_def
      extract_text_from_pdf_def NamedTemporaryFile_def tmp_write_def tmp_flush_def
      tmp_exit_def PdfReader_def Let_def example_world_def empty_state_def example_request_def
      example_config_def truthy_def startswith_def strip_def str_def no_text_found_def unauthorized_def)

text \<open>
  C10: on a path that starts with \<open>/predict\<close> the guard checks the key; on any other path
  it forwards. Two requests that agree on whether the path has the prefix and on the
  \<open>X-API-Key\<close> header get the same decision, whatever their methods, uploads and the rest
  of their paths.
\<close>

theorem guard_prefix_only:
  "(startswith (url_path r) (str ''/predict'') \<longrightarrow>
      api_key_guard cfg call_next r s =
        (if truthy (API_KEY cfg) \<and> headers_get r (str ''X-API-Key'') = API_KEY cfg
         then call_next r s else (Inr unauthorized, s))) \<and>
   (\<not> startswith (url_path r) (str ''/predict'') \<longrightarrow> api_key_guard cfg call_next r s = call_next r s) \<and>
   (startswith (url_path r) (str ''/predict'') = startswith (url_path r') (str ''/predict'') \<and>
    headers_get r (str ''X-API-Key'') = headers_get r' (str ''X-API-Key'') \<longrightarrow>
      api_key_guard cfg (\<lambda>_. k) r s = api_key_guard cfg (\<lambda>_. k) r' s)"
  by (simp add: api_key_guard_def)

text \<open>
  \<open>/predictfoo\<close> and \<open>/predict/anything\<close> are rejected without the key and forwarded
  with it, \<open>/\<close> is forwarded without a key, and a GET and a POST with the same key get the
  same decision.
\<close>

theorem guard_prefix_only_witness:
  "api_key_guard (example_config (Some (str ''s3cret''))) (route (example_world (Inr []) (Inr [])))
     (example_request (str ''GET'') (str ''/predictfoo'') None None) empty_state
     = (Inr unauthorized, empty_state) \<and>
   api_key_guard (example_config (Some (str ''s3cret''))) (route (example_world (Inr []) (Inr [])))
     (example_request (str ''DELETE'') (str ''/predict/anything'') (Some (str ''bad'')) None) empty_state
     = (Inr unauthorized, empty_state) \<and>
   api_key_guard (example_config (Some (str ''s3cret''))) (route (example_world (Inr []) (Inr [])))
     (example_request (str ''GET'') (str ''/predictfoo'') (Some (str ''s3cret'')) None) empty_state
     = route (example_world (Inr []) (Inr []))
         (example_request (str ''GET'') (str ''/predictfoo'') (Some (str ''s3cret'')) None) empty_state \<and>
   api_key_guard (example_config (Some (str ''s3cret''))) (route (example_world (Inr []) (Inr [])))
     (example_request (str ''GET'') (str ''/'') None None) empty_state
     = route (example_world (Inr []) (Inr [])) (example_request (str ''GET'') (str ''/'') None None) empty_state \<and>
   api_key_guard (example_config (Some (str ''s3cret''))) (\<lambda>_. Pair (Inl (PyExc True [])))
     (example_request (str ''GET'') (str ''/predict'') (Some (str ''s3cret'')) None) empty_state
     = api_key_guard (example_config (Some (str ''s3cret''))) (\<lambda>_. Pair (Inl (PyExc True [])))
         (example_request (str ''POST'') (str ''/predictfoo'') (Some (str ''s3cret'')) (Some (Inr [1, 2]))) empty_state"
proof -
  let ?cfg = "example_config (Some (str ''s3cret''))"
  let ?nxt = "route (example_world (Inr []) (Inr []))"
  note pre = guard_prefix_only [THEN conjunct1, rule_format, where cfg = ?cfg and call_next = ?nxt and s = empty_state]
  note byp = guard_prefix_only [THEN conjunct2, THEN conjunct1, rule_format, where cfg = ?cfg and call_next = ?nxt and s = empty_state]
  note ind = guard_prefix_only [THEN conjunct2, THEN conjunct2, rule_format, where cfg = ?cfg and s = empty_state]
  have 1: "api_key_guard ?cfg ?nxt (example_request (str ''GET'') (str ''/predictfoo'') None None) empty_state
             = (Inr unauthorized, empty_state)"
    by (subst pre) (simp_all add: example_request_def example_config_def startswith_def truthy_def str_def)
  have 2: "api_key_guard ?cfg ?nxt
             (example_request (str ''DELETE'') (str ''/predict/anything'') (Some (str ''bad'')) None) empty_state
             = (Inr unauthorized, empty_state)"
    by (subst pre) (simp_all add: example_request_def example_config_def startswith_def truthy_def str_def)
  have 3: "api_key_guard ?cfg ?nxt
             (example_request (str ''GET'') (str ''/predictfoo'') (Some (str ''s3cret'')) None) empty_state
             = ?nxt (example_request (str ''GET'') (str ''/predictfoo'') (Some (str ''s3cret'')) None) empty_state"
    by (subst pre) (simp_all add: example_request_def example_config_def startswith_def truthy_def str_def)
  have 4: "api_key_guard ?cfg ?nxt (example_request (str ''GET'') (str ''/'') None None) empty_state
             = ?nxt (example_request (str ''GET'') (str ''/'') None None) empty_state"
    by (rule byp) (simp add: example_request_def startswith_def str_def)
  have 5: "api_key_guard ?cfg (\<lambda>_. Pair (Inl (PyExc True [])))
             (example_request (str ''GET'') (str ''/predict'') (Some (str ''s3cret'')) None) empty_state
           = api_key_guard ?cfg (\<lambda>_. Pair (Inl (PyExc True [])))
               (example_request (str ''POST'') (str ''/predictfoo'') (Some (str ''s3cret'')) (Some (Inr [1, 2]))) empty_state"
    by (rule ind) (simp add: example_request_def startswith_def str_def)
  from 1 2 3 4 5 show ?thesis by blast
qed

text \<open>
  C9: the module body reads each of the two variables once. Without \<open>OPENAI_API_KEY\<close>
  it raises. With \<open>OPENAI_API_KEY\<close> set and \<open>API_KEY\<close> absent it goes on, and the
  application then answers 401 to every request on a path that starts with \<open>/predict\<close>.
\<close>

theorem startup_config:
  "snd (startup environ) = [str ''OPENAI_API_KEY'', str ''API_KEY''] \<and>
   (environ (str ''OPENAI_API_KEY'') = None \<longrightarrow> fst (startup environ) = Inl RuntimeError) \<and>
   (environ (str ''OPENAI_API_KEY'') = Some k \<and> k \<noteq> [] \<and> environ (str ''API_KEY'') = None \<longrightarrow>
      fst (startup environ) = Inr \<lparr>OPENAI_API_KEY = Some k, API_KEY = None\<rparr> \<and>
      (\<forall>w r s. startswith (url_path r) (str ''/predict'') \<longrightarrow>
         app \<lparr>OPENAI_API_KEY = Some k, API_KEY = None\<rparr> w r s = (Inr unauthorized, s)))"
  by (simp add: startup_def getenv_def truthy_def app_def api_key_guard_def)

text \<open>An empty environment, and one with the credential only.\<close>

theorem startup_config_witness:
  "snd (startup (\<lambda>_. None)) = [str ''OPENAI_API_KEY'', str ''API_KEY''] \<and>
   fst (startup (\<lambda>_. None)) = Inl RuntimeError \<and>
   fst (startup (\<lambda>name. if name = str ''OPENAI_API_KEY'' then Some (str ''sk-test'') else None))
     = Inr \<lparr>OPENAI_API_KEY = Some (str ''sk-test''), API_KEY = None\<rparr> \<and>
   app \<lparr>OPENAI_API_KEY = Some (str ''sk-test''), API_KEY = None\<rparr> (example_world (Inr []) (Inr []))
     (example_request (str ''POST'') (str ''/predict'') (Some (str ''anything'')) (Some (Inr [37, 80]))) empty_state
     = (Inr unauthorized, empty_state)"
proof -
  let ?env = "\<lambda>name. if name = str ''OPENAI_API_KEY'' then Some (str ''sk-test'') else None"
  have a: "?env (str ''OPENAI_API_KEY'') = Some (str ''sk-test'') \<and> str ''sk-test'' \<noteq> [] \<and>
           ?env (str ''API_KEY'') = None"
    by (simp add: str_def)
  have p: "startswith (url_path (example_request (str ''POST'') (str ''/predict'') (Some (str ''anything'')) (Some (Inr [37, 80]))))
             (str ''/predict'')"
    by (simp add: example_request_def startswith_def)
  from startup_config [of "\<lambda>_. None"]
  have 1: "snd (startup (\<lambda>_. None)) = [str ''OPENAI_API_KEY'', str ''API_KEY''] \<and>
           fst (startup (\<lambda>_. None)) = Inl RuntimeError"
    by simp
  from startup_config [of ?env "str ''sk-test''"] a
  have 2: "fst (startup ?env) = Inr \<lparr>OPENAI_API_KEY = Some (str ''sk-test''), API_KEY = None\<rparr> \<and>
      (\<forall>w r s. startswith (url_path r) (str ''/predict'') \<longrightarrow>
         app \<lparr>OPENAI_API_KEY = Some (str ''sk-test''), API_KEY = None\<rparr> w r s = (Inr unauthorized, s))"
    by blast
  from 1 2 p show ?thesis by blast
qed

section \<open>Facts about strip and the logged calls\<close>

lemma strip_no_space:
  assumes "t \<noteq> []" "\<not> py_isspace (hd t)" "\<not> py_isspace (last t)"
  shows "strip t = t"
proof -
  have "dropWhile py_isspace t = t"
    using assms by (simp add: dropWhile_eq_self_iff)
  moreover have "dropWhile py_isspace (rev t) = rev t"
    using assms by (simp add: dropWhile_eq_self_iff hd_rev)
  ultimately show ?thesis by (simp add: strip_def)
qed

lemma trace_extract_text:
  "trace (snd (extract_text_from_pdf w b s)) = trace s @ [ExtractText b]"
  by (simp add: extract_text_from_pdf_unfold)

section \<open>The predict endpoint\<close>

lemma predict_try_empty:
  assumes "fst (extract_text_from_pdf w b s) = Inr []"
  shows "predict_try w (Inr b) s = (Inr no_text_found, snd (extract_text_from_pdf w b s))"
  using assms by (cases "extract_text_from_pdf w b s") (simp add: predict_try_def)

lemma predict_try_text:
  assumes "fst (extract_text_from_pdf w b s) = Inr text" "text \<noteq> []"
  shows "predict_try w (Inr b) s =
           ((case chat_completions_create w (create_args text) of
               Inl e \<Rightarrow> Inl e
             | Inr [] \<Rightarrow> Inl IndexError
             | Inr (resposta # _) \<Rightarrow>
                 Inr (JObject [(str ''resultado'',
                        (case resposta of None \<Rightarrow> JNull | Some t \<Rightarrow> JString t))])),
            (snd (extract_text_from_pdf w b s))
              \<lparr>trace := trace s @ [ExtractText b, ChatCreate (create_args text)]\<rparr>)"
proof (cases "extract_text_from_pdf w b s")
  case (Pair x s1)
  with assms have x: "x = Inr text" by simp
  from Pair have "trace s1 = trace s @ [ExtractText b]"
    using trace_extract_text [of w b s] by simp
  with Pair x assms(2) show ?thesis
    by (simp add: predict_try_def Let_def split: sum.splits list.splits)
qed

lemma trace_predict:
  "trace (snd (predict w file s)) = trace (snd (predict_try w file s))"
  by (cases "predict_try w file s") (auto simp: predict_def split: sum.splits)

lemma app_predict:
  assumes "truthy (API_KEY cfg)" "headers_get r (str ''X-API-Key'') = API_KEY cfg"
    and "req_method r = str ''POST''" "url_path r = str ''/predict''" "req_file r = Some file"
  shows "app cfg w r s =
           (case predict w file s of
              (Inl e, s1) \<Rightarrow> (Inl (if is_Exception e then e else call_next_raises w e), s1)
            | (Inr d, s1) \<Rightarrow> (render_json w d, s1))"
  using assms
  by (cases "predict w file s")
    (auto simp: app_def api_key_guard_def base_http_call_next_def route_def startswith_def
      render_json_def UnicodeEncodeError_def split: sum.splits)

lemma snd_app_predict:
  assumes "truthy (API_KEY cfg)" "headers_get r (str ''X-API-Key'') = API_KEY cfg"
    and "req_method r = str ''POST''" "url_path r = str ''/predict''" "req_file r = Some file"
  shows "snd (app cfg w r s) = snd (predict w file s)"
  using app_predict [OF assms, of w s]
  by (cases "predict w file s") (auto split: sum.splits)

lemma render_json_string:
  "render_json w (JObject [(str ''resultado'', JString t)]) =
     (if utf8_encodable t
      then Inr \<lparr>status_code = 200, content = JObject [(str ''resultado'', JString t)]\<rparr>
      else Inl (UnicodeEncodeError (encode_error_text w (JObject [(str ''resultado'', JString t)]))))"
  "render_json w (JObject [(str ''error'', JString t)]) =
     (if utf8_encodable t
      then Inr \<lparr>status_code = 200, content = JObject [(str ''error'', JString t)]\<rparr>
      else Inl (UnicodeEncodeError (encode_error_text w (JObject [(str ''error'', JString t)]))))"
  by (simp_all add: render_json_def utf8_encodable_def str_def)

lemma render_json_no_text_found:
  "render_json w no_text_found = Inr \<lparr>status_code = 200, content = no_text_found\<rparr>"
  by (simp add: render_json_def no_text_found_def utf8_encodable_def str_def)

text \<open>
  C2: an authorized \<open>POST /predict\<close> whose upload gives the empty string as extracted
  text is answered with exactly \<open>{"error": "Nenhum texto encontrado no PDF."}\<close>, and the
  only call the request makes is the one to the text extraction: the completion service
  is not called.
\<close>

theorem empty_text_no_call:
  assumes "truthy (API_KEY cfg)" "headers_get r (str ''X-API-Key'') = API_KEY cfg"
    and "req_method r = str ''POST''" "url_path r = str ''/predict''"
    and "req_file r = Some (Inr file_bytes)"
    and "fst (extract_text_from_pdf w file_bytes s) = Inr []"
  shows "fst (app cfg w r s) =
           Inr \<lparr>status_code = 200,
                content = JObject [(str ''error'', JString (str ''Nenhum texto encontrado no PDF.''))]\<rparr> \<and>
         trace (snd (app cfg w r s)) = trace s @ [ExtractText file_bytes]"
  using app_predict [OF assms(1-5), of w s] predict_try_empty [OF assms(6)]
    trace_extract_text [of w file_bytes s] render_json_no_text_found [of w]
  by (simp add: predict_def no_text_found_def)


text \<open>
  C4: the user message of the request sent to the completion service is the fixed head,
  the first 6000 characters of the extracted text and the fixed tail; the request is the
  one the truncated text alone would give, so nothing from index 6000 on reaches it; a
  text of at most 6000 characters is included whole.
\<close>

theorem prompt_truncated:
  assumes "truthy (API_KEY cfg)" "headers_get r (str ''X-API-Key'') = API_KEY cfg"
    and "req_method r = str ''POST''" "url_path r = str ''/predict''"
    and "req_file r = Some (Inr file_bytes)"
    and "fst (extract_text_from_pdf w file_bytes s) = Inr text" "text \<noteq> []"
  shows "trace (snd (app cfg w r s)) = trace s @ [ExtractText file_bytes, ChatCreate (create_args text)] \<and>
         map msg_content (messages (create_args text)) =
           [system_content, prompt_head @ take 6000 text @ prompt_tail] \<and>
         create_args text = create_args (take 6000 text) \<and>
         (length text \<le> 6000 \<longrightarrow> prompt text = prompt_head @ text @ prompt_tail)"
  using snd_app_predict [OF assms(1-5), of w s] trace_predict [of w "Inr file_bytes" s]
    predict_try_text [OF assms(6,7)]
  by (simp add: create_args_def prompt_def)

text \<open>
  C6, as the code has it: when the completion service returns and its first choice has
  the message text \<open>t\<close>, the handler returns \<open>{"resultado": t}\<close> for every \<open>t\<close>, with no
  condition on what \<open>t\<close> is. For an authorized \<open>POST /predict\<close> that dict is the body of
  the response, with status 200, when \<open>t\<close> can be encoded as UTF-8; when it cannot, the
  rendering of the response raises after the handler has returned, and no such body is
  sent.
\<close>

theorem resultado_verbatim:
  assumes "fst (extract_text_from_pdf w file_bytes s) = Inr text" "text \<noteq> []"
    and "chat_completions_create w (create_args text) = Inr (Some t # rest)"
  shows "fst (predict w (Inr file_bytes) s) = Inr (JObject [(str ''resultado'', JString t)]) \<and>
         (truthy (API_KEY cfg) \<and> headers_get r (str ''X-API-Key'') = API_KEY cfg \<and>
          req_method r = str ''POST'' \<and> url_path r = str ''/predict'' \<and>
          req_file r = Some (Inr file_bytes) \<longrightarrow>
            fst (app cfg w r s) =
              (if utf8_encodable t
               then Inr \<lparr>status_code = 200, content = JObject [(str ''resultado'', JString t)]\<rparr>
               else Inl (UnicodeEncodeError
                          (encode_error_text w (JObject [(str ''resultado'', JString t)])))))"
proof -
  have p: "fst (predict w (Inr file_bytes) s) = Inr (JObject [(str ''resultado'', JString t)])"
    using predict_try_text [OF assms(1,2)] assms(3) by (simp add: predict_def)
  show ?thesis
  proof (intro conjI impI)
    show "fst (predict w (Inr file_bytes) s) = Inr (JObject [(str ''resultado'', JString t)])"
      by (rule p)
  next
    assume a: "truthy (API_KEY cfg) \<and> headers_get r (str ''X-API-Key'') = API_KEY cfg \<and>
          req_method r = str ''POST'' \<and> url_path r = str ''/predict'' \<and>
          req_file r = Some (Inr file_bytes)"
    then have "app cfg w r s =
           (case predict w (Inr file_bytes) s of
              (Inl e, s1) \<Rightarrow> (Inl (if is_Exception e then e else call_next_raises w e), s1)
            | (Inr d, s1) \<Rightarrow> (render_json w d, s1))"
      by (intro app_predict) simp_all
    with p show "fst (app cfg w r s) =
              (if utf8_encodable t
               then Inr \<lparr>status_code = 200, content = JObject [(str ''resultado'', JString t)]\<rparr>
               else Inl (UnicodeEncodeError
                          (encode_error_text w (JObject [(str ''resultado'', JString t)]))))"
      by (cases "predict w (Inr file_bytes) s") (simp add: render_json_string)
  qed
qed

text \<open>
  C7, as the code has it: an exception raised in the \<open>try\<close> block of \<open>predict\<close> is
  caught when it is an instance of \<open>Exception\<close>, and the handler then returns
  \<open>{"error": str(e)}\<close>; any other exception leaves the handler as it is. So no instance
  of \<open>Exception\<close> leaves the handler. For an authorized \<open>POST /predict\<close> the error dict
  is sent with status 200 when \<open>str(e)\<close> can be encoded as UTF-8.
\<close>

theorem exception_to_error_body:
  "(\<forall>e s1. predict_try w file s = (Inl e, s1) \<longrightarrow>
      predict w file s =
        (if is_Exception e then (Inr (JObject [(str ''error'', JString (exc_str e))]), s1)
         else (Inl e, s1))) \<and>
   (\<forall>e. fst (predict w file s) = Inl e \<longrightarrow> \<not> is_Exception e) \<and>
   (\<forall>e s1. truthy (API_KEY cfg) \<and> headers_get r (str ''X-API-Key'') = API_KEY cfg \<and>
      req_method r = str ''POST'' \<and> url_path r = str ''/predict'' \<and> req_file r = Some file \<and>
      predict_try w file s = (Inl e, s1) \<and> is_Exception e \<and> utf8_encodable (exc_str e) \<longrightarrow>
        app cfg w r s =
          (Inr \<lparr>status_code = 200, content = JObject [(str ''error'', JString (exc_str e))]\<rparr>, s1))"
proof (intro conjI allI impI)
  fix e s1
  assume "predict_try w file s = (Inl e, s1)"
  then show "predict w file s =
        (if is_Exception e then (Inr (JObject [(str ''error'', JString (exc_str e))]), s1)
         else (Inl e, s1))"
    by (simp add: predict_def)
next
  fix e
  assume "fst (predict w file s) = Inl e"
  then show "\<not> is_Exception e"
    by (cases "predict_try w file s") (auto simp: predict_def split: sum.splits if_splits)
next
  fix e s1
  assume a: "truthy (API_KEY cfg) \<and> headers_get r (str ''X-API-Key'') = API_KEY cfg \<and>
      req_method r = str ''POST'' \<and> url_path r = str ''/predict'' \<and> req_file r = Some file \<and>
      predict_try w file s = (Inl e, s1) \<and> is_Exception e \<and> utf8_encodable (exc_str e)"
  then have "app cfg w r s =
           (case predict w file s of
              (Inl e, s1) \<Rightarrow> (Inl (if is_Exception e then e else call_next_raises w e), s1)
            | (Inr d, s1) \<Rightarrow> (render_json w d, s1))"
    by (intro app_predict) simp_all
  with a show "app cfg w r s =
          (Inr \<lparr>status_code = 200, content = JObject [(str ''error'', JString (exc_str e))]\<rparr>, s1)"
    by (simp add: predict_def render_json_string)
qed

section \<open>The predict endpoint on the example inputs\<close>

text \<open>The example request with the right key is an authorized \<open>POST /predict\<close>.\<close>

lemma example_authorized:
  "truthy (API_KEY (example_config (Some (str ''s3cret''))))"
  "headers_get (example_request (str ''POST'') (str ''/predict'') (Some (str ''s3cret'')) (Some file)) (str ''X-API-Key'')
     = API_KEY (example_config (Some (str ''s3cret'')))"
  "req_method (example_request (str ''POST'') (str ''/predict'') (Some (str ''s3cret'')) (Some file)) = str ''POST''"
  "url_path (example_request (str ''POST'') (str ''/predict'') (Some (str ''s3cret'')) (Some file)) = str ''/predict''"
  "req_file (example_request (str ''POST'') (str ''/predict'') (Some (str ''s3cret'')) (Some file)) = Some file"
  by (simp_all add: example_request_def example_config_def truthy_def str_def)

lemma example_extract:
  "fst (extract_text_from_pdf (example_world (Inr [Inr x]) answer) b s) = Inr (strip (or_empty x))"
  by (simp add: extract_text_from_pdf_unfold example_world_def)

lemma example_extract_nota:
  "fst (extract_text_from_pdf (example_world (Inr [Inr (Some (str ''Nota 123''))]) answer) b s)
     = Inr (str ''Nota 123'')"
  by (simp add: example_extract or_empty_def truthy_def strip_def py_isspace_def str_def)

text \<open>A PDF of one page without text: the error body, and no call to the service.\<close>

theorem empty_text_no_call_witness:
  "fst (extract_text_from_pdf (example_world (Inr [Inr None]) (Inr [Some (str ''never asked'')]))
          [37, 80, 68, 70] empty_state) = Inr [] \<and>
   fst (app (example_config (Some (str ''s3cret''))) (example_world (Inr [Inr None]) (Inr [Some (str ''never asked'')]))
          (example_request (str ''POST'') (str ''/predict'') (Some (str ''s3cret'')) (Some (Inr [37, 80, 68, 70])))
          empty_state)
     = Inr \<lparr>status_code = 200,
            content = JObject [(str ''error'', JString (str ''Nenhum texto encontrado no PDF.''))]\<rparr> \<and>
   trace (snd (app (example_config (Some (str ''s3cret'')))
                 (example_world (Inr [Inr None]) (Inr [Some (str ''never asked'')]))
                 (example_request (str ''POST'') (str ''/predict'') (Some (str ''s3cret'')) (Some (Inr [37, 80, 68, 70])))
                 empty_state))
     = [ExtractText [37, 80, 68, 70]]"
proof -
  let ?w = "example_world (Inr [Inr None]) (Inr [Some (str ''never asked'')])"
  have e: "fst (extract_text_from_pdf ?w [37, 80, 68, 70] empty_state) = Inr []"
    by (simp add: example_extract or_empty_def truthy_def strip_def)
  from empty_text_no_call [OF example_authorized e] e
  show ?thesis by (simp add: empty_state_def)
qed


lemma example_extract_long:
  "fst (extract_text_from_pdf (example_world (Inr [Inr (Some (replicate 6000 65 @ [66, 67]))]) answer) b s)
     = Inr (replicate 6000 65 @ [66, 67])"
proof -
  have "strip (replicate 6000 65 @ [66, 67]) = replicate 6000 65 @ [66, 67]"
    by (rule strip_no_space) (simp_all add: py_isspace_def)
  then show ?thesis
    by (simp add: example_extract or_empty_def truthy_def)
qed

text \<open>
  A text of 6002 characters, 6000 times \<open>A\<close> and then \<open>BC\<close>: the prompt holds the 6000
  \<open>A\<close> only. A text of 8 characters is included whole.
\<close>

theorem prompt_truncated_witness:
  "fst (extract_text_from_pdf
          (example_world (Inr [Inr (Some (replicate 6000 65 @ [66, 67]))]) (Inr [Some (str ''{}'')]))
          [37, 80, 68, 70] empty_state) = Inr (replicate 6000 65 @ [66, 67]) \<and>
   length (replicate 6000 (65::nat) @ [66, 67]) = 6002 \<and>
   trace (snd (app (example_config (Some (str ''s3cret'')))
                 (example_world (Inr [Inr (Some (replicate 6000 65 @ [66, 67]))]) (Inr [Some (str ''{}'')]))
                 (example_request (str ''POST'') (str ''/predict'') (Some (str ''s3cret'')) (Some (Inr [37, 80, 68, 70])))
                 empty_state))
     = [ExtractText [37, 80, 68, 70], ChatCreate (create_args (replicate 6000 65 @ [66, 67]))] \<and>
   map msg_content (messages (create_args (replicate 6000 65 @ [66, 67])))
     = [system_content, prompt_head @ replicate 6000 65 @ prompt_tail] \<and>
   create_args (replicate 6000 65 @ [66, 67]) = create_args (replicate 6000 65) \<and>
   fst (extract_text_from_pdf
          (example_world (Inr [Inr (Some (str ''Nota 123''))]) (Inr [Some (str ''{}'')]))
          [37, 80, 68, 70] empty_state) = Inr (str ''Nota 123'') \<and>
   length (str ''Nota 123'') \<le> 6000 \<and>
   prompt (str ''Nota 123'') = prompt_head @ str ''Nota 123'' @ prompt_tail"
proof -
  let ?t = "replicate 6000 (65::nat) @ [66, 67]"
  let ?w1 = "example_world (Inr [Inr (Some ?t)]) (Inr [Some (str ''{}'')])"
  let ?w2 = "example_world (Inr [Inr (Some (str ''Nota 123''))]) (Inr [Some (str ''{}'')])"
  have n1: "?t \<noteq> []" by simp
  have n2: "str ''Nota 123'' \<noteq> []" by (simp add: str_def)
  have l2: "length (str ''Nota 123'') \<le> 6000" by (simp add: str_def)
  have e1: "fst (extract_text_from_pdf ?w1 [37, 80, 68, 70] empty_state) = Inr ?t"
    by (rule example_extract_long)
  have e2: "fst (extract_text_from_pdf ?w2 [37, 80, 68, 70] empty_state) = Inr (str ''Nota 123'')"
    by (rule example_extract_nota)
  have tk: "take 6000 ?t = replicate 6000 65" by simp
  note pt = prompt_truncated [OF example_authorized e1 n1, unfolded tk]
  have 1: "trace (snd (app (example_config (Some (str ''s3cret''))) ?w1
                 (example_request (str ''POST'') (str ''/predict'') (Some (str ''s3cret'')) (Some (Inr [37, 80, 68, 70])))
                 empty_state))
             = [ExtractText [37, 80, 68, 70], ChatCreate (create_args ?t)]"
    using pt [THEN conjunct1] by (simp add: empty_state_def)
  have 3: "map msg_content (messages (create_args ?t)) = [system_content, prompt_head @ replicate 6000 65 @ prompt_tail]"
    by (rule pt [THEN conjunct2, THEN conjunct1])
  have 4: "create_args ?t = create_args (replicate 6000 65)"
    by (rule pt [THEN conjunct2, THEN conjunct2, THEN conjunct1])
  from prompt_truncated [OF example_authorized e2 n2] l2
  have 2: "prompt (str ''Nota 123'') = prompt_head @ str ''Nota 123'' @ prompt_tail"
    by blast
  have l1: "length ?t = 6002" by simp
  from 1 2 3 4 e1 e2 l1 l2 show ?thesis by blast
qed

text \<open>
  An answer that is not JSON is returned as it is and sent with status 200; the second
  choice is ignored.
\<close>

theorem resultado_verbatim_witness:
  "fst (extract_text_from_pdf
          (example_world (Inr [Inr (Some (str ''Nota 123''))]) (Inr [Some (str ''{ not JSON''), Some (str ''second'')]))
          [37, 80, 68, 70] empty_state) = Inr (str ''Nota 123'') \<and>
   chat_completions_create
     (example_world (Inr [Inr (Some (str ''Nota 123''))]) (Inr [Some (str ''{ not JSON''), Some (str ''second'')]))
     (create_args (str ''Nota 123'')) = Inr [Some (str ''{ not JSON''), Some (str ''second'')] \<and>
   fst (predict
          (example_world (Inr [Inr (Some (str ''Nota 123''))]) (Inr [Some (str ''{ not JSON''), Some (str ''second'')]))
          (Inr [37, 80, 68, 70]) empty_state)
     = Inr (JObject [(str ''resultado'', JString (str ''{ not JSON''))]) \<and>
   utf8_encodable (str ''{ not JSON'') \<and>
   fst (app (example_config (Some (str ''s3cret'')))
          (example_world (Inr [Inr (Some (str ''Nota 123''))]) (Inr [Some (str ''{ not JSON''), Some (str ''second'')]))
          (example_request (str ''POST'') (str ''/predict'') (Some (str ''s3cret'')) (Some (Inr [37, 80, 68, 70])))
          empty_state)
     = Inr \<lparr>status_code = 200, content = JObject [(str ''resultado'', JString (str ''{ not JSON''))]\<rparr>"
proof -
  let ?w = "example_world (Inr [Inr (Some (str ''Nota 123''))]) (Inr [Some (str ''{ not JSON''), Some (str ''second'')])"
  let ?r = "example_request (str ''POST'') (str ''/predict'') (Some (str ''s3cret'')) (Some (Inr [37, 80, 68, 70]))"
  have n: "str ''Nota 123'' \<noteq> []" by (simp add: str_def)
  have e: "fst (extract_text_from_pdf ?w [37, 80, 68, 70] empty_state) = Inr (str ''Nota 123'')"
    by (rule example_extract_nota)
  have c: "chat_completions_create ?w (create_args (str ''Nota 123''))
             = Inr (Some (str ''{ not JSON'') # [Some (str ''second'')])"
    by (simp add: example_world_def)
  have u: "utf8_encodable (str ''{ not JSON'')"
    by (simp add: utf8_encodable_def str_def)
  note rv = resultado_verbatim [OF e n c, where cfg = "example_config (Some (str ''s3cret''))" and r = ?r]
  have 1: "fst (predict ?w (Inr [37, 80, 68, 70]) empty_state)
             = Inr (JObject [(str ''resultado'', JString (str ''{ not JSON''))])"
    by (rule rv [THEN conjunct1])
  have 2: "fst (app (example_config (Some (str ''s3cret''))) ?w ?r empty_state)
             = Inr \<lparr>status_code = 200, content = JObject [(str ''resultado'', JString (str ''{ not JSON''))]\<rparr>"
    using rv [THEN conjunct2] u by (simp add: example_authorized)
  from e c 1 u 2 show ?thesis by simp
qed

text \<open>
  C6 as stated fails where the text of the first choice cannot be encoded as UTF-8: for
  the one-character text \<open>U+D800\<close> the handler returns \<open>{"resultado": t}\<close>, and the
  request is not answered with that body: the rendering raises \<open>UnicodeEncodeError\<close>.
\<close>

theorem lone_surrogate_not_sent:
  "chat_completions_create
     (example_world (Inr [Inr (Some (str ''Nota 123''))]) (Inr [Some [55296]]))
     (create_args (str ''Nota 123'')) = Inr [Some [55296]] \<and>
   fst (predict (example_world (Inr [Inr (Some (str ''Nota 123''))]) (Inr [Some [55296]]))
          (Inr [37, 80, 68, 70]) empty_state)
     = Inr (JObject [(str ''resultado'', JString [55296])]) \<and>
   fst (app (example_config (Some (str ''s3cret'')))
          (example_world (Inr [Inr (Some (str ''Nota 123''))]) (Inr [Some [55296]]))
          (example_request (str ''POST'') (str ''/predict'') (Some (str ''s3cret'')) (Some (Inr [37, 80, 68, 70])))
          empty_state)
     = Inl (UnicodeEncodeError (str ''surrogates not allowed''))"
  by (simp add: app_def api_key_guard_def base_http_call_next_def route_def render_json_def
      UnicodeEncodeError_def utf8_encodable_def predict_def predict_try_def
      extract_text_from_pdf_def NamedTemporaryFile_def tmp_write_def tmp_flush_def
      tmp_exit_def PdfReader_def Let_def example_world_def empty_state_def example_request_def
      example_config_def or_empty_def truthy_def startswith_def strip_def py_isspace_def str_def)

text \<open>
  A malformed PDF that the reader rejects, and a network failure of the completion
  service: both caught, and answered with status 200 and the error text.
\<close>

theorem exception_to_error_body_witness:
  "predict_try (example_world (Inl (PyExc True (str ''EOF marker not found''))) (Inr [])) (Inr [1, 2, 3]) empty_state
     = (Inl (PyExc True (str ''EOF marker not found'')),
        snd (extract_text_from_pdf (example_world (Inl (PyExc True (str ''EOF marker not found''))) (Inr []))
               [1, 2, 3] empty_state)) \<and>
   is_Exception (PyExc True (str ''EOF marker not found'')) \<and>
   utf8_encodable (exc_str (PyExc True (str ''EOF marker not found''))) \<and>
   predict (example_world (Inl (PyExc True (str ''EOF marker not found''))) (Inr [])) (Inr [1, 2, 3]) empty_state
     = (Inr (JObject [(str ''error'', JString (str ''EOF marker not found''))]),
        snd (extract_text_from_pdf (example_world (Inl (PyExc True (str ''EOF marker not found''))) (Inr []))
               [1, 2, 3] empty_state)) \<and>
   app (example_config (Some (str ''s3cret'')))
     (example_world (Inl (PyExc True (str ''EOF marker not found''))) (Inr []))
     (example_request (str ''POST'') (str ''/predict'') (Some (str ''s3cret'')) (Some (Inr [1, 2, 3]))) empty_state
     = (Inr \<lparr>status_code = 200,
              content = JObject [(str ''error'', JString (str ''EOF marker not found''))]\<rparr>,
        snd (extract_text_from_pdf (example_world (Inl (PyExc True (str ''EOF marker not found''))) (Inr []))
               [1, 2, 3] empty_state)) \<and>
   fst (app (example_config (Some (str ''s3cret'')))
          (example_world (Inr [Inr (Some (str ''Nota 123''))]) (Inl (PyExc True (str ''Connection error.''))))
          (example_request (str ''POST'') (str ''/predict'') (Some (str ''s3cret'')) (Some (Inr [37, 80, 68, 70])))
          empty_state)
     = Inr \<lparr>status_code = 200, content = JObject [(str ''error'', JString (str ''Connection error.''))]\<rparr>"
proof -
  let ?c = "example_config (Some (str ''s3cret''))"
  let ?e = "PyExc True (str ''EOF marker not found'')"
  let ?e2 = "PyExc True (str ''Connection error.'')"
  let ?w1 = "example_world (Inl ?e) (Inr [])"
  let ?w2 = "example_world (Inr [Inr (Some (str ''Nota 123''))]) (Inl ?e2)"
  let ?r1 = "example_request (str ''POST'') (str ''/predict'') (Some (str ''s3cret'')) (Some (Inr [1, 2, 3]))"
  let ?r2 = "example_request (str ''POST'') (str ''/predict'') (Some (str ''s3cret'')) (Some (Inr [37, 80, 68, 70]))"
  let ?s1 = "snd (extract_text_from_pdf ?w1 [1, 2, 3] empty_state)"
  let ?s2 = "(snd (extract_text_from_pdf ?w2 [37, 80, 68, 70] empty_state))
               \<lparr>trace := trace empty_state @ [ExtractText [37, 80, 68, 70], ChatCreate (create_args (str ''Nota 123''))]\<rparr>"
  have p1: "predict_try ?w1 (Inr [1, 2, 3]) empty_state = (Inl ?e, ?s1)"
    by (simp add: predict_try_def extract_text_from_pdf_unfold example_world_def)
  have n: "str ''Nota 123'' \<noteq> []" by (simp add: str_def)
  have e2: "fst (extract_text_from_pdf ?w2 [37, 80, 68, 70] empty_state) = Inr (str ''Nota 123'')"
    by (rule example_extract_nota)
  have p2: "predict_try ?w2 (Inr [37, 80, 68, 70]) empty_state = (Inl ?e2, ?s2)"
    unfolding predict_try_text [OF e2 n] by (simp add: example_world_def)
  have u1: "utf8_encodable (exc_str ?e)" by (simp add: utf8_encodable_def str_def)
  have u2: "utf8_encodable (exc_str ?e2)" by (simp add: utf8_encodable_def str_def)
  have x1: "is_Exception ?e" and x2: "is_Exception ?e2" by simp_all
  note h = exception_to_error_body [of ?w1 "Inr [1, 2, 3]" empty_state ?c ?r1]
  note h2 = exception_to_error_body [of ?w2 "Inr [37, 80, 68, 70]" empty_state ?c ?r2]
  have 1: "predict ?w1 (Inr [1, 2, 3]) empty_state
             = (Inr (JObject [(str ''error'', JString (str ''EOF marker not found''))]), ?s1)"
    using h [THEN conjunct1, rule_format, OF p1] by simp
  have 2: "app ?c ?w1 ?r1 empty_state
             = (Inr \<lparr>status_code = 200,
                      content = JObject [(str ''error'', JString (str ''EOF marker not found''))]\<rparr>, ?s1)"
    using h [THEN conjunct2, THEN conjunct2, rule_format, of ?e ?s1] p1 x1 u1
    by (simp add: example_authorized)
  have 3: "fst (app ?c ?w2 ?r2 empty_state)
             = Inr \<lparr>status_code = 200, content = JObject [(str ''error'', JString (str ''Connection error.''))]\<rparr>"
    using h2 [THEN conjunct2, THEN conjunct2, rule_format, of ?e2 ?s2] p2 x2 u2
    by (simp add: example_authorized)
  from p1 x1 u1 1 2 3 show ?thesis by blast
qed

text \<open>
  C7 as stated fails for an exception that is not an instance of \<open>Exception\<close>: a
  cancellation raised by \<open>await file.read()\<close>, or raised while the PDF is read (an
  \<open>asyncio.CancelledError\<close>, whose \<open>str\<close> is empty), is not caught and leaves the handler.
  It fails for the status too: an \<open>Exception\<close> whose text cannot be encoded as UTF-8 is
  caught and the error dict returned, and the request is not answered with status 200.
\<close>

theorem base_exception_escapes:
  "fst (predict (example_world (Inr []) (Inr [])) (Inl (PyExc False [])) empty_state)
     = Inl (PyExc False []) \<and>
   fst (predict (example_world (Inl (PyExc False [])) (Inr [])) (Inr [37, 80, 68, 70]) empty_state)
     = Inl (PyExc False []) \<and>
   fst (predict (example_world (Inl (PyExc True [55296])) (Inr [])) (Inr [37, 80, 68, 70]) empty_state)
     = Inr (JObject [(str ''error'', JString [55296])]) \<and>
   fst (app (example_config (Some (str ''s3cret'')))
          (example_world (Inl (PyExc True [55296])) (Inr []))
          (example_request (str ''POST'') (str ''/predict'') (Some (str ''s3cret'')) (Some (Inr [37, 80, 68, 70])))
          empty_state)
     = Inl (UnicodeEncodeError (str ''surrogates not allowed''))"
  by (simp add: app_def api_key_guard_def base_http_call_next_def route_def render_json_def
      UnicodeEncodeError_def utf8_encodable_def predict_def predict_try_def
      extract_text_from_pdf_def NamedTemporaryFile_def tmp_write_def tmp_flush_def
      tmp_exit_def PdfReader_def Let_def example_world_def empty_state_def example_request_def
      example_config_def truthy_def startswith_def str_def)

end
